theory Spec2Isabelle
  imports Main
begin

section \<open>Python values used by the agents\<close>

text \<open>
  Strings are \<open>char list\<close>; a \<open>char\<close> stands for one code point below 256.
  Exceptions are values. \<open>except Exception\<close> catches every exception class but the
  ones outside \<open>Exception\<close> (KeyboardInterrupt, SystemExit), which \<open>Interrupt\<close> stands for.
\<close>

datatype exn =
    IndexError
  | KeyError string
  | OverflowError
  | Error string
  | Interrupt

fun is_Exception :: "exn \<Rightarrow> bool" where
  "is_Exception Interrupt = False"
| "is_Exception _ = True"


subsection \<open>str of an int\<close>

definition digit_char :: "nat \<Rightarrow> char" where
  "digit_char d = ''0123456789'' ! d"

fun str_nat :: "nat \<Rightarrow> string" where
  "str_nat n = (if n < 10 then [digit_char n] else str_nat (n div 10) @ [digit_char (n mod 10)])"

declare str_nat.simps [simp del]

definition str_int :: "int \<Rightarrow> string" where
  "str_int i = (if i < 0 then CHR ''-'' # str_nat (nat (- i)) else str_nat (nat i))"

subsection \<open>json.dumps\<close>

text \<open>
  The values the tools serialise, and \<open>json.dumps\<close> with its defaults: separators
  \<open>", "\<close> and \<open>": "\<close>, and \<open>ensure_ascii\<close>, which escapes the quote, the backslash
  and every character outside the range from space to tilde.
\<close>

datatype json =
    JNull
  | JBool bool
  | JInt int
  | JStr string
  | JList "json list"
  | JObj "(string \<times> json) list"

definition hex_char :: "nat \<Rightarrow> char" where
  "hex_char d = ''0123456789abcdef'' ! d"

definition escape_char :: "char \<Rightarrow> string" where
  "escape_char c =
     (if c = CHR 0x22 then [CHR 0x5C, CHR 0x22]
      else if c = CHR 0x5C then [CHR 0x5C, CHR 0x5C]
      else if c = CHR 0x08 then [CHR 0x5C, CHR ''b'']
      else if c = CHR 0x0C then [CHR 0x5C, CHR ''f'']
      else if c = CHR 0x0A then [CHR 0x5C, CHR ''n'']
      else if c = CHR 0x0D then [CHR 0x5C, CHR ''r'']
      else if c = CHR 0x09 then [CHR 0x5C, CHR ''t'']
      else if (of_char c :: nat) < 32 \<or> 126 < (of_char c :: nat)
        then [CHR 0x5C, CHR ''u'', CHR ''0'', CHR ''0'',
              hex_char (of_char c div 16), hex_char (of_char c mod 16)]
      else [c])"

definition encode_basestring_ascii :: "string \<Rightarrow> string" where
  "encode_basestring_ascii s = [CHR 0x22] @ concat (map escape_char s) @ [CHR 0x22]"

fun join :: "string \<Rightarrow> string list \<Rightarrow> string" where
  "join sep [] = []"
| "join sep [x] = x"
| "join sep (x # y # ys) = x @ sep @ join sep (y # ys)"

fun dumps :: "json \<Rightarrow> string" where
  "dumps JNull = ''null''"
| "dumps (JBool b) = (if b then ''true'' else ''false'')"
| "dumps (JInt i) = str_int i"
| "dumps (JStr s) = encode_basestring_ascii s"
| "dumps (JList xs) = ''['' @ join '', '' (map dumps xs) @ '']''"
| "dumps (JObj kvs) =
     ''{'' @ join '', '' (map (\<lambda>(k, v). encode_basestring_ascii k @ '': '' @ dumps v) kvs) @ ''}''"

section \<open>Messages and the state of the task agent\<close>

text \<open>
  A tool call is the dict the model puts on an assistant message; the tool node reads its
  three keys with \<open>.get\<close>, so each may be absent (\<open>None\<close>).
\<close>

type_synonym args = "(string \<times> json) list"

record tool_call =
  tc_name :: "string option"
  tc_args :: "args option"
  tc_id :: "string option"

datatype message =
    HumanMessage string
  | SystemMessage string
  | AIMessage string "tool_call list"
  | ToolMessage string "string option"

fun content :: "message \<Rightarrow> string" where
  "content (HumanMessage c) = c"
| "content (SystemMessage c) = c"
| "content (AIMessage c tcs) = c"
| "content (ToolMessage c i) = c"

text \<open>\<open>getattr(msg, "tool_calls", default)\<close>: only an assistant message has the attribute.\<close>

fun getattr_tool_calls :: "message \<Rightarrow> tool_call list option" where
  "getattr_tool_calls (AIMessage c tcs) = Some tcs"
| "getattr_tool_calls _ = None"

fun is_ToolMessage :: "message \<Rightarrow> bool" where
  "is_ToolMessage (ToolMessage c i) = True"
| "is_ToolMessage _ = False"

fun is_SystemMessage :: "message \<Rightarrow> bool" where
  "is_SystemMessage (SystemMessage c) = True"
| "is_SystemMessage _ = False"

fun tool_call_id :: "message \<Rightarrow> string option" where
  "tool_call_id (ToolMessage c i) = i"
| "tool_call_id _ = None"

text \<open>
  \<open>MessagesState\<close> is a dict with the keys \<open>messages\<close> and \<open>llm_calls\<close>; a key may be
  missing (the REPL passes a state without \<open>llm_calls\<close>). A node returns a dict of the same
  shape holding only the keys it updates.
\<close>

record MessagesState =
  messages :: "message list option"
  llm_calls :: "int option"

definition get_messages :: "MessagesState \<Rightarrow> message list" where
  "get_messages state = (case messages state of None \<Rightarrow> [] | Some ms \<Rightarrow> ms)"

definition get_llm_calls :: "MessagesState \<Rightarrow> int" where
  "get_llm_calls state = (case llm_calls state of None \<Rightarrow> 0 | Some n \<Rightarrow> n)"

section \<open>The external collaborators\<close>

text \<open>
  The text-generation service and the tool objects are outside the repository. Each is a
  function of its input and of the state \<open>'w\<close> of the outside world, returning the new
  world together with a value or the exception it raised. A model call returns the content
  and the tool calls of one assistant message. A tool object is called in two ways by the
  tool node: \<open>tool.invoke(args)\<close> and \<open>tool(**args)\<close>.
\<close>

type_synonym 'w gateway = "message list \<Rightarrow> 'w \<Rightarrow> (exn + string \<times> tool_call list) \<times> 'w"

record 'w tool =
  invoke :: "args \<Rightarrow> 'w \<Rightarrow> (exn + string) \<times> 'w"
  direct_call :: "args \<Rightarrow> 'w \<Rightarrow> (exn + string) \<times> 'w"

record 'w env =
  model_with_tools :: "'w gateway"
  model :: "'w gateway"
  TOOLS_BY_NAME :: "string \<rightharpoonup> 'w tool"

section \<open>The nodes of the task agent\<close>

definition system :: message where
  "system = SystemMessage
     ([CHR 0x0A] @ ''You are a task-agent assistant. Use the available tools to manage tasks when appropriate:'' @
      [CHR 0x0A] @ ''add_task, list_tasks, complete_task, delete_task, search_tasks.'' @
      [CHR 0x0A] @ ''If you want to perform an action, call a tool with JSON-serializable args.'' @
      [CHR 0x0A] @ ''Otherwise return a normal assistant reply.'' @ [CHR 0x0A])"

text \<open>
  \<open>llm_call\<close>: the bound model is tried first; an exception under \<open>Exception\<close> is caught
  and the raw model is called with the same list. Whatever the second call raises leaves
  the function.
\<close>

definition llm_call :: "'w env \<Rightarrow> MessagesState \<Rightarrow> 'w \<Rightarrow> (exn + MessagesState) \<times> 'w" where
  "llm_call e state w =
     (let incoming = get_messages state;
          update = (\<lambda>new_msg. \<lparr>messages = Some [AIMessage (fst new_msg) (snd new_msg)],
                               llm_calls = Some (get_llm_calls state + 1)\<rparr>)
      in case model_with_tools e (system # incoming) w of
           (Inr new_msg, w1) \<Rightarrow> (Inr (update new_msg), w1)
         | (Inl ex, w1) \<Rightarrow>
             if is_Exception ex
             then (case model e (system # incoming) w1 of
                     (Inr new_msg, w2) \<Rightarrow> (Inr (update new_msg), w2)
                   | (Inl ex2, w2) \<Rightarrow> (Inl ex2, w2))
             else (Inl ex, w1))"

text \<open>The observation for a name that is not in the registry.\<close>

definition str_of_name :: "string option \<Rightarrow> string" where
  "str_of_name name = (case name of None \<Rightarrow> ''None'' | Some n \<Rightarrow> n)"

definition unknown_tool_obs :: "string option \<Rightarrow> string" where
  "unknown_tool_obs name = dumps (JObj [(''error'', JStr (''Unknown tool '' @ str_of_name name))])"

definition registry_get :: "(string \<rightharpoonup> 'w tool) \<Rightarrow> string option \<Rightarrow> 'w tool option" where
  "registry_get reg name = (case name of None \<Rightarrow> None | Some n \<Rightarrow> reg n)"

text \<open>One pass of the loop body of \<open>tool_node\<close>, for one tool call.\<close>

definition get_args :: "tool_call \<Rightarrow> args" where
  "get_args tc = (case tc_args tc of None \<Rightarrow> [] | Some a \<Rightarrow> a)"

definition run_tool_call :: "'w env \<Rightarrow> tool_call \<Rightarrow> 'w \<Rightarrow> (exn + message) \<times> 'w" where
  "run_tool_call e tc w =
     (let name = tc_name tc;
          args = get_args tc
      in case registry_get (TOOLS_BY_NAME e) name of
           None \<Rightarrow> (Inr (ToolMessage (unknown_tool_obs name) (tc_id tc)), w)
         | Some tool_callable \<Rightarrow>
             (case invoke tool_callable args w of
                (Inr obs, w1) \<Rightarrow> (Inr (ToolMessage obs (tc_id tc)), w1)
              | (Inl ex, w1) \<Rightarrow>
                  if is_Exception ex
                  then (case direct_call tool_callable args w1 of
                          (Inr obs, w2) \<Rightarrow> (Inr (ToolMessage obs (tc_id tc)), w2)
                        | (Inl ex2, w2) \<Rightarrow> (Inl ex2, w2))
                  else (Inl ex, w1)))"

fun tool_loop :: "'w env \<Rightarrow> tool_call list \<Rightarrow> message list \<Rightarrow> 'w \<Rightarrow> (exn + message list) \<times> 'w" where
  "tool_loop e [] results w = (Inr results, w)"
| "tool_loop e (tc # tcs) results w =
     (case run_tool_call e tc w of
        (Inl ex, w1) \<Rightarrow> (Inl ex, w1)
      | (Inr m, w1) \<Rightarrow> tool_loop e tcs (results @ [m]) w1)"

definition tool_node :: "'w env \<Rightarrow> MessagesState \<Rightarrow> 'w \<Rightarrow> (exn + MessagesState) \<times> 'w" where
  "tool_node e state w =
     (case messages state of
        None \<Rightarrow> (Inl (KeyError ''messages''), w)
      | Some msgs \<Rightarrow>
          if msgs = [] then (Inl IndexError, w)
          else (case tool_loop e (case getattr_tool_calls (last msgs) of None \<Rightarrow> [] | Some tcs \<Rightarrow> tcs) [] w of
                  (Inl ex, w1) \<Rightarrow> (Inl ex, w1)
                | (Inr results, w1) \<Rightarrow> (Inr \<lparr>messages = Some results, llm_calls = None\<rparr>, w1)))"


datatype route = To_tool_node | END

definition should_continue :: "MessagesState \<Rightarrow> route" where
  "should_continue state =
     (let msgs = get_messages state
      in if msgs = [] then END
         else (case getattr_tool_calls (last msgs) of
                 None \<Rightarrow> END
               | Some tcs \<Rightarrow> if tcs = [] then END else To_tool_node))"

section \<open>The graph of the task agent\<close>

text \<open>
  The graph is declared in the source and run by the orchestration library. A node's
  update is merged into the state as the state type declares: \<open>messages\<close> with
  \<open>operator.add\<close> (the old list followed by the new one), \<open>llm_calls\<close> by overwriting.
  The edges are \<open>START \<rightarrow> llm_call\<close>, the conditional edge from \<open>llm_call\<close> through
  \<open>should_continue\<close>, and \<open>tool_node \<rightarrow> llm_call\<close>. An exception raised by a node
  leaves \<open>agent.invoke\<close>: the caller gets the exception and no state. The source sets no
  bound on the number of steps; the only bound is the one the caller's configuration gives
  the library (its recursion limit). \<open>run\<close> takes that number of steps as its fuel, and
  \<open>Running\<close> is what a run returns when the fuel is used up before the graph ends.
\<close>

definition apply_update :: "MessagesState \<Rightarrow> MessagesState \<Rightarrow> MessagesState" where
  "apply_update state upd =
     \<lparr>messages = (case messages upd of
                     None \<Rightarrow> messages state
                   | Some new \<Rightarrow> Some (get_messages state @ new)),
      llm_calls = (case llm_calls upd of None \<Rightarrow> llm_calls state | Some n \<Rightarrow> Some n)\<rparr>"

datatype node = Llm_call | Tool_node

datatype 'w outcome =
    Halted MessagesState 'w
  | Raised exn 'w
  | Running node MessagesState 'w

definition step :: "'w env \<Rightarrow> node \<Rightarrow> MessagesState \<Rightarrow> 'w \<Rightarrow> 'w outcome" where
  "step e nd state w =
     (case nd of
        Llm_call \<Rightarrow>
          (case llm_call e state w of
             (Inl ex, w1) \<Rightarrow> Raised ex w1
           | (Inr upd, w1) \<Rightarrow>
               (let state1 = apply_update state upd
                in case should_continue state1 of
                     To_tool_node \<Rightarrow> Running Tool_node state1 w1
                   | END \<Rightarrow> Halted state1 w1))
      | Tool_node \<Rightarrow>
          (case tool_node e state w of
             (Inl ex, w1) \<Rightarrow> Raised ex w1
           | (Inr upd, w1) \<Rightarrow> Running Llm_call (apply_update state upd) w1))"

fun run :: "nat \<Rightarrow> 'w env \<Rightarrow> node \<Rightarrow> MessagesState \<Rightarrow> 'w \<Rightarrow> 'w outcome" where
  "run 0 e nd state w = Running nd state w"
| "run (Suc k) e nd state w =
     (case step e nd state w of
        Running nd1 state1 w1 \<Rightarrow> run k e nd1 state1 w1
      | Halted state1 w1 \<Rightarrow> Halted state1 w1
      | Raised ex w1 \<Rightarrow> Raised ex w1)"

definition agent_invoke :: "nat \<Rightarrow> 'w env \<Rightarrow> MessagesState \<Rightarrow> 'w \<Rightarrow> 'w outcome" where
  "agent_invoke fuel e state_in w = run fuel e Llm_call state_in w"



section \<open>Stub collaborators\<close>

text \<open>
  A stubbed model answers from a script: the world is the list of answers still to give,
  and each call takes the first. Two stub tools: \<open>echo(text)\<close> returns its argument, and a
  tool that raises however it is called.
\<close>

type_synonym script = "(exn + string \<times> tool_call list) list"

definition scripted :: "script gateway" where
  "scripted msgs w =
     (case w of [] \<Rightarrow> (Inl (Error ''script exhausted''), []) | r # rs \<Rightarrow> (r, rs))"

definition echo_handler :: "args \<Rightarrow> 'w \<Rightarrow> (exn + string) \<times> 'w" where
  "echo_handler a w =
     (case map_of a ''text'' of
        Some (JStr t) \<Rightarrow> (Inr t, w)
      | _ \<Rightarrow> (Inl (Error ''echo: text is required''), w))"

definition echo_tool :: "'w tool" where
  "echo_tool = \<lparr>invoke = echo_handler, direct_call = echo_handler\<rparr>"

definition raising_handler :: "args \<Rightarrow> 'w \<Rightarrow> (exn + string) \<times> 'w" where
  "raising_handler a w = (Inl (Error ''boom''), w)"

definition raising_tool :: "'w tool" where
  "raising_tool = \<lparr>invoke = raising_handler, direct_call = raising_handler\<rparr>"

definition stub_registry :: "string \<rightharpoonup> 'w tool" where
  "stub_registry = [''echo'' \<mapsto> echo_tool, ''boom'' \<mapsto> raising_tool]"

definition stub_env :: "script env" where
  "stub_env = \<lparr>model_with_tools = scripted, model = scripted, TOOLS_BY_NAME = stub_registry\<rparr>"

definition request :: "string \<Rightarrow> args \<Rightarrow> string \<Rightarrow> tool_call" where
  "request n a i = \<lparr>tc_name = Some n, tc_args = Some a, tc_id = Some i\<rparr>"



text \<open>
  A gateway that also keeps, beside the world, the list of the inputs it was sent: what
  the model step sends to the service can be read off it.
\<close>

definition recording :: "'w gateway \<Rightarrow> ('w \<times> message list list) gateway" where
  "recording g msgs wl = (case g msgs (fst wl) of (r, w1) \<Rightarrow> (r, (w1, snd wl @ [msgs])))"

section \<open>The task table and the tools that complete and delete a task\<close>

text \<open>
  The SQLite table \<open>tasks\<close> as the list of its rows; \<open>id\<close> is the primary key. The
  world of the tools is the table and the UTC clock. \<open>sqlite3\<close> binds a Python int as a
  64-bit integer and raises \<open>OverflowError\<close> for an int outside that range.
\<close>

record task_row =
  row_id :: int
  title :: string
  description :: "string option"
  category :: "string option"
  priority :: "string option"
  due_date :: "string option"
  completed :: int
  created_at :: "string option"
  updated_at :: "string option"

record world =
  tasks :: "task_row list"
  utcnow :: string

definition fits_sqlite_integer :: "int \<Rightarrow> bool" where
  "fits_sqlite_integer i = (- (2 ^ 63) \<le> i \<and> i < 2 ^ 63)"

definition db_complete_task :: "world \<Rightarrow> int \<Rightarrow> (exn + int) \<times> world" where
  "db_complete_task conn task_id =
     (if \<not> fits_sqlite_integer task_id then (Inl OverflowError, conn)
      else (Inr (int (length (filter (\<lambda>r. row_id r = task_id) (tasks conn)))),
            conn\<lparr>tasks := map (\<lambda>r. if row_id r = task_id
                                     then r\<lparr>completed := 1, updated_at := Some (utcnow conn)\<rparr>
                                     else r) (tasks conn)\<rparr>))"

definition db_delete_task :: "world \<Rightarrow> int \<Rightarrow> (exn + int) \<times> world" where
  "db_delete_task conn task_id =
     (if \<not> fits_sqlite_integer task_id then (Inl OverflowError, conn)
      else (Inr (int (length (filter (\<lambda>r. row_id r = task_id) (tasks conn)))),
            conn\<lparr>tasks := filter (\<lambda>r. row_id r \<noteq> task_id) (tasks conn)\<rparr>))"

definition complete_task :: "int \<Rightarrow> world \<Rightarrow> (exn + string) \<times> world" where
  "complete_task task_id w =
     (case db_complete_task w task_id of
        (Inl ex, w1) \<Rightarrow> (Inl ex, w1)
      | (Inr updated, w1) \<Rightarrow>
          (Inr (dumps (JObj
             [(''msg'', JStr (if updated \<noteq> 0
                              then ''Marked task '' @ str_int task_id @ '' completed.''
                              else ''Task '' @ str_int task_id @ '' not found.'')),
              (''updated'', JBool (updated \<noteq> 0))])), w1))"

definition delete_task :: "int \<Rightarrow> world \<Rightarrow> (exn + string) \<times> world" where
  "delete_task task_id w =
     (case db_delete_task w task_id of
        (Inl ex, w1) \<Rightarrow> (Inl ex, w1)
      | (Inr deleted, w1) \<Rightarrow>
          (Inr (dumps (JObj
             [(''msg'', JStr (if deleted \<noteq> 0
                              then ''Deleted task '' @ str_int task_id @ ''.''
                              else ''Task '' @ str_int task_id @ '' not found.'')),
              (''deleted'', JBool (deleted \<noteq> 0))])), w1))"



section \<open>The Drafter agent\<close>






text \<open>
  The tools \<open>update\<close> and \<open>save\<close> share the global \<open>document_content\<close>. Writing the
  file is the file system's business: \<open>write_file\<close> is the outcome of opening the file
  for writing and writing the content, in a file system \<open>'fs\<close>.
\<close>

record 'fs drafter_world =
  document_content :: string
  files :: 'fs

definition update :: "string \<Rightarrow> 'fs drafter_world \<Rightarrow> string \<times> 'fs drafter_world" where
  "update new_content w =
     (''Document has been updated successfully! The current content is:'' @ [CHR 0x0A] @ new_content,
      w\<lparr>document_content := new_content\<rparr>)"








section \<open>The tool node: one pass per request\<close>


lemma run_tool_call_Inr:
  "run_tool_call e tc w = (Inr m, w1) \<Longrightarrow> is_ToolMessage m \<and> tool_call_id m = tc_id tc"
  by (auto simp: run_tool_call_def Let_def split: option.splits prod.splits sum.splits if_splits)


lemma tool_loop_Inr:
  "tool_loop e tcs acc w = (Inr rs, w1) \<Longrightarrow>
     \<exists>ms. rs = acc @ ms \<and> length ms = length tcs \<and> map tool_call_id ms = map tc_id tcs
          \<and> list_all is_ToolMessage ms"
proof (induction tcs arbitrary: acc w)
  case Nil
  then show ?case by simp
next
  case (Cons tc tcs)
  from Cons.prems obtain m w0 where
    one: "run_tool_call e tc w = (Inr m, w0)" and rest: "tool_loop e tcs (acc @ [m]) w0 = (Inr rs, w1)"
    by (auto split: prod.splits sum.splits)
  from Cons.IH [OF rest] obtain ms where
    ms: "rs = (acc @ [m]) @ ms" "length ms = length tcs" "map tool_call_id ms = map tc_id tcs"
        "list_all is_ToolMessage ms"
    by blast
  from run_tool_call_Inr [OF one] ms show ?case
    by (intro exI [of _ "m # ms"]) simp
qed












section \<open>The routing after the model step\<close>

lemma should_continue_last:
  "messages state = Some (hist @ [AIMessage c tcs]) \<Longrightarrow>
     should_continue state = (if tcs = [] then END else To_tool_node)"
  by (simp add: should_continue_def get_messages_def)

lemma llm_call_update:
  "llm_call e state w = (Inr upd, w1) \<Longrightarrow>
     \<exists>c tcs. upd = \<lparr>messages = Some [AIMessage c tcs], llm_calls = Some (get_llm_calls state + 1)\<rparr>"
  by (auto simp: llm_call_def Let_def split: prod.splits sum.splits if_splits)

lemma apply_update_messages:
  "messages upd = Some new \<Longrightarrow> messages (apply_update state upd) = Some (get_messages state @ new)"
  by (simp add: apply_update_def)

text \<open>
  Claim C3. A state whose last message is an assistant message with no tool call is
  routed to \<open>END\<close>, one with a tool call to the tool node. When the model step appends an
  assistant message without tool calls the run halts there, whatever fuel is left: the
  final state and world are those right after that one model step, so no further model
  call is made. With one or more tool calls the next step is the tool node.
\<close>

theorem loop_halts_without_requests:
  "(messages state = Some (hist @ [AIMessage c tcs]) \<longrightarrow>
      should_continue state = (if tcs = [] then END else To_tool_node))
   \<and> (llm_call e state0 w = (Inr upd, w1) \<and> messages upd = Some [AIMessage c []] \<longrightarrow>
        run (Suc fuel) e Llm_call state0 w = Halted (apply_update state0 upd) w1
        \<and> get_llm_calls (apply_update state0 upd) = get_llm_calls state0 + 1)
   \<and> (llm_call e state0 w = (Inr upd, w1) \<and> messages upd = Some [AIMessage c tcs] \<and> tcs \<noteq> [] \<longrightarrow>
        step e Llm_call state0 w = Running Tool_node (apply_update state0 upd) w1)"
proof (intro conjI impI)
  assume "messages state = Some (hist @ [AIMessage c tcs])"
  then show "should_continue state = (if tcs = [] then END else To_tool_node)"
    by (rule should_continue_last)
next
  assume a: "llm_call e state0 w = (Inr upd, w1) \<and> messages upd = Some [AIMessage c []]"
  then have "messages (apply_update state0 upd) = Some (get_messages state0 @ [AIMessage c []])"
    by (simp add: apply_update_messages)
  then have "should_continue (apply_update state0 upd) = END"
    using should_continue_last [of "apply_update state0 upd" "get_messages state0" c "[]"] by simp
  with a show "run (Suc fuel) e Llm_call state0 w = Halted (apply_update state0 upd) w1"
    by (simp add: step_def)
  from a llm_call_update [of e state0 w upd w1]
  show "get_llm_calls (apply_update state0 upd) = get_llm_calls state0 + 1"
    by (auto simp: apply_update_def get_llm_calls_def)
next
  assume a: "llm_call e state0 w = (Inr upd, w1) \<and> messages upd = Some [AIMessage c tcs] \<and> tcs \<noteq> []"
  then have "messages (apply_update state0 upd) = Some (get_messages state0 @ [AIMessage c tcs])"
    by (simp add: apply_update_messages)
  then have "should_continue (apply_update state0 upd) = To_tool_node"
    using should_continue_last [of "apply_update state0 upd" "get_messages state0" c tcs] a by simp
  with a show "step e Llm_call state0 w = Running Tool_node (apply_update state0 upd) w1"
    by (simp add: step_def)
qed

theorem loop_halts_without_requests_witness:
  "should_continue \<lparr>messages = Some ([HumanMessage ''hello''] @ [AIMessage ''done'' []]), llm_calls = Some 1\<rparr> = END
   \<and> should_continue \<lparr>messages = Some ([HumanMessage ''hello''] @
        [AIMessage [] [request ''echo'' [(''text'', JStr ''hi'')] ''X'']]), llm_calls = Some 1\<rparr> = To_tool_node
   \<and> run (Suc 5) stub_env Llm_call \<lparr>messages = Some [HumanMessage ''hello''], llm_calls = None\<rparr>
        [Inr (''done'', []), Inr (''again'', [])]
      = Halted \<lparr>messages = Some [HumanMessage ''hello'', AIMessage ''done'' []], llm_calls = Some 1\<rparr>
          [Inr (''again'', [])]"
proof -
  let ?s0 = "\<lparr>messages = Some [HumanMessage ''hello''], llm_calls = None\<rparr>"
  let ?upd = "\<lparr>messages = Some [AIMessage ''done'' []], llm_calls = Some 1\<rparr>"
  have call: "llm_call stub_env ?s0 [Inr (''done'', []), Inr (''again'', [])]
                = (Inr ?upd, [Inr (''again'', [])])"
    by (simp add: llm_call_def stub_env_def scripted_def get_messages_def get_llm_calls_def)
  show ?thesis
    using loop_halts_without_requests [of
        "\<lparr>messages = Some ([HumanMessage ''hello''] @ [AIMessage ''done'' []]), llm_calls = Some 1\<rparr>"
        "[HumanMessage ''hello'']" "''done''" "[]" stub_env ?s0
        "[Inr (''done'', []), Inr (''again'', [])]" ?upd "[Inr (''again'', [])]" 5]
      loop_halts_without_requests [of
        "\<lparr>messages = Some ([HumanMessage ''hello''] @
            [AIMessage [] [request ''echo'' [(''text'', JStr ''hi'')] ''X'']]), llm_calls = Some 1\<rparr>"
        "[HumanMessage ''hello'']" "[]" "[request ''echo'' [(''text'', JStr ''hi'')] ''X'']"
        stub_env ?s0 "[]" ?upd "[]" 0]
      call
    by (simp add: apply_update_def get_messages_def)
qed

section \<open>The step after the tool node\<close>

text \<open>
  What the tool node returns when it returns.
\<close>

lemma tool_node_update:
  "tool_node e state w = (Inr upd, w1) \<Longrightarrow>
     \<exists>rs. upd = \<lparr>messages = Some rs, llm_calls = None\<rparr> \<and> list_all is_ToolMessage rs
        \<and> map tool_call_id rs =
            map tc_id (case getattr_tool_calls (last (get_messages state)) of None \<Rightarrow> [] | Some tcs \<Rightarrow> tcs)"
proof -
  assume a: "tool_node e state w = (Inr upd, w1)"
  then obtain msgs where msgs: "messages state = Some msgs" "msgs \<noteq> []"
    by (auto simp: tool_node_def split: option.splits if_splits)
  define tcs where "tcs = (case getattr_tool_calls (last msgs) of None \<Rightarrow> [] | Some tcs \<Rightarrow> tcs)"
  from a msgs obtain rs where loop: "tool_loop e tcs [] w = (Inr rs, w1)"
    and upd: "upd = \<lparr>messages = Some rs, llm_calls = None\<rparr>"
    by (auto simp: tool_node_def tcs_def split: prod.splits sum.splits)
  from tool_loop_Inr [OF loop] upd msgs show ?thesis
    by (auto simp: get_messages_def tcs_def)
qed



section \<open>A failing generation call\<close>

text \<open>
  Claim C5, as amended. When the call of the tool-bound model raises an exception under
  \<open>Exception\<close>, the model step makes one more generation call by itself, on the raw model
  with the same input, and returns what that call returns. Only when that call raises too
  (or the first exception is outside \<open>Exception\<close>) does the model step raise; the run
  then ends with that exception, which is all the caller gets: no state, hence no partial
  history, is returned with it.
\<close>

theorem llm_call_falls_back_then_raises:
  "(model_with_tools e (system # get_messages state) w = (Inl ex, w1) \<and> is_Exception ex \<longrightarrow>
      llm_call e state w =
        (case model e (system # get_messages state) w1 of
           (Inr new_msg, w2) \<Rightarrow>
             (Inr \<lparr>messages = Some [AIMessage (fst new_msg) (snd new_msg)],
                   llm_calls = Some (get_llm_calls state + 1)\<rparr>, w2)
         | (Inl ex2, w2) \<Rightarrow> (Inl ex2, w2)))
   \<and> (llm_call e state w = (Inl ex2, w2) \<longrightarrow>
        run (Suc fuel) e Llm_call state w = Raised ex2 w2
        \<and> (\<exists>ex1 w1. model_with_tools e (system # get_messages state) w = (Inl ex1, w1)
              \<and> (if is_Exception ex1
                  then model e (system # get_messages state) w1 = (Inl ex2, w2)
                  else ex1 = ex2 \<and> w1 = w2)))"
proof (intro conjI impI)
  assume "model_with_tools e (system # get_messages state) w = (Inl ex, w1) \<and> is_Exception ex"
  then show "llm_call e state w =
        (case model e (system # get_messages state) w1 of
           (Inr new_msg, w2) \<Rightarrow>
             (Inr \<lparr>messages = Some [AIMessage (fst new_msg) (snd new_msg)],
                   llm_calls = Some (get_llm_calls state + 1)\<rparr>, w2)
         | (Inl ex2, w2) \<Rightarrow> (Inl ex2, w2))"
    by (simp add: llm_call_def Let_def split: prod.splits sum.splits)
next
  assume a: "llm_call e state w = (Inl ex2, w2)"
  then show "run (Suc fuel) e Llm_call state w = Raised ex2 w2"
    by (simp add: step_def)
  from a show "\<exists>ex1 w1. model_with_tools e (system # get_messages state) w = (Inl ex1, w1)
              \<and> (if is_Exception ex1
                  then model e (system # get_messages state) w1 = (Inl ex2, w2)
                  else ex1 = ex2 \<and> w1 = w2)"
    by (auto simp: llm_call_def Let_def split: prod.splits sum.splits if_splits)
qed

theorem llm_call_falls_back_then_raises_witness:
  "llm_call stub_env \<lparr>messages = Some [HumanMessage ''hello''], llm_calls = None\<rparr>
       [Inl (Error ''service unavailable''), Inr (''done'', [])]
     = (Inr \<lparr>messages = Some [AIMessage ''done'' []], llm_calls = Some 1\<rparr>, [])
   \<and> run (Suc 4) stub_env Llm_call \<lparr>messages = Some [HumanMessage ''hello''], llm_calls = None\<rparr>
       [Inl (Error ''service unavailable''), Inl (Error ''still unavailable''), Inr (''done'', [])]
     = Raised (Error ''still unavailable'') [Inr (''done'', [])]"
proof -
  let ?s0 = "\<lparr>messages = Some [HumanMessage ''hello''], llm_calls = None\<rparr>"
  have first: "model_with_tools stub_env (system # get_messages ?s0)
      [Inl (Error ''service unavailable''), Inr (''done'', [])]
        = (Inl (Error ''service unavailable''), [Inr (''done'', [])])
      \<and> is_Exception (Error ''service unavailable'')"
    by (simp add: stub_env_def scripted_def)
  have both: "llm_call stub_env ?s0
      [Inl (Error ''service unavailable''), Inl (Error ''still unavailable''), Inr (''done'', [])]
        = (Inl (Error ''still unavailable''), [Inr (''done'', [])])"
    by (simp add: llm_call_def stub_env_def scripted_def)
  show ?thesis
    using llm_call_falls_back_then_raises [of stub_env ?s0
        "[Inl (Error ''service unavailable''), Inr (''done'', [])]"
        "Error ''service unavailable''" "[Inr (''done'', [])]" "Error ''x''" "[]" 0]
      llm_call_falls_back_then_raises [of stub_env ?s0
        "[Inl (Error ''service unavailable''), Inl (Error ''still unavailable''), Inr (''done'', [])]"
        "Error ''x''" "[]" "Error ''still unavailable''" "[Inr (''done'', [])]" 4]
      first both
    by (simp add: stub_env_def scripted_def get_messages_def get_llm_calls_def)
qed

text \<open>
  The claim as stated fails: the first generation call fails, no error reaches the caller,
  a second generation call is made and the run halts with the answer of that call.
\<close>

theorem llm_call_counterexample_C5:
  "agent_invoke 3 stub_env \<lparr>messages = Some [HumanMessage ''hello''], llm_calls = None\<rparr>
     [Inl (Error ''service unavailable''), Inr (''done'', [])]
   = Halted \<lparr>messages = Some [HumanMessage ''hello'', AIMessage ''done'' []], llm_calls = Some 1\<rparr> []"
  by (simp add: agent_invoke_def numeral_3_eq_3 step_def llm_call_def stub_env_def scripted_def
        get_messages_def get_llm_calls_def apply_update_def should_continue_def)

section \<open>No bound on the iterations\<close>







section \<open>The history is only extended\<close>

lemma ToolMessage_not_system: "is_ToolMessage m \<Longrightarrow> \<not> is_SystemMessage m"
  by (cases m) simp_all

text \<open>
  Every step that returns a state has only appended to the history, and what it appended
  holds no system message.
\<close>

lemma step_extends:
  assumes "step e nd state w = Running nd1 state1 w1 \<or> step e nd state w = Halted state1 w1"
  shows "\<exists>new. messages state1 = Some (get_messages state @ new)
            \<and> list_all (\<lambda>m. \<not> is_SystemMessage m) new"
proof (cases nd)
  case Llm_call
  with assms obtain upd where call: "llm_call e state w = (Inr upd, w1)"
    and s1: "state1 = apply_update state upd"
    by (auto simp: step_def Let_def split: prod.splits sum.splits route.splits)
  from llm_call_update [OF call] obtain c tcs where
    "upd = \<lparr>messages = Some [AIMessage c tcs], llm_calls = Some (get_llm_calls state + 1)\<rparr>"
    by blast
  with s1 have "messages state1 = Some (get_messages state @ [AIMessage c tcs])"
    by (simp add: apply_update_def)
  then show ?thesis by simp
next
  case Tool_node
  with assms obtain upd where call: "tool_node e state w = (Inr upd, w1)"
    and s1: "state1 = apply_update state upd"
    by (auto simp: step_def split: prod.splits sum.splits)
  from tool_node_update [OF call] obtain rs where
    "upd = \<lparr>messages = Some rs, llm_calls = None\<rparr>" and tm: "list_all is_ToolMessage rs"
    by blast
  with s1 have "messages state1 = Some (get_messages state @ rs)"
    by (simp add: apply_update_def)
  moreover from tm have "list_all (\<lambda>m. \<not> is_SystemMessage m) rs"
    by (induction rs) (auto dest: ToolMessage_not_system)
  ultimately show ?thesis by blast
qed

lemma run_extends:
  "run fuel e nd state w = Running nd1 state1 w1 \<or> run fuel e nd state w = Halted state1 w1 \<Longrightarrow>
     \<exists>new. get_messages state1 = get_messages state @ new
          \<and> list_all (\<lambda>m. \<not> is_SystemMessage m) new"
proof (induction fuel arbitrary: nd state w)
  case 0
  then show ?case by simp
next
  case (Suc fuel)
  show ?case
  proof (cases "step e nd state w")
    case (Halted s2 w2)
    with Suc.prems have "step e nd state w = Halted state1 w1" by simp
    from step_extends [OF disjI2, OF this] show ?thesis
      by (auto simp: get_messages_def)
  next
    case (Raised ex w2)
    with Suc.prems show ?thesis by simp
  next
    case (Running nd2 s2 w2)
    with Suc.prems have rest:
      "run fuel e nd2 s2 w2 = Running nd1 state1 w1 \<or> run fuel e nd2 s2 w2 = Halted state1 w1"
      by simp
    from step_extends [OF disjI1, OF Running] obtain new1 where
      n1: "get_messages s2 = get_messages state @ new1" "list_all (\<lambda>m. \<not> is_SystemMessage m) new1"
      by (auto simp: get_messages_def)
    from Suc.IH [OF rest] obtain new2 where
      n2: "get_messages state1 = get_messages s2 @ new2" "list_all (\<lambda>m. \<not> is_SystemMessage m) new2"
      by blast
    from n1 n2 show ?thesis
      by (intro exI [of _ "new1 @ new2"]) simp
  qed
qed






section \<open>The system message\<close>

lemma recording_llm_call:
  "llm_call \<lparr>model_with_tools = recording g1, model = recording g2, TOOLS_BY_NAME = reg\<rparr>
       state (w, log) = (r, (w1, log1)) \<Longrightarrow>
     log1 = log @ [system # get_messages state]
     \<or> log1 = log @ [system # get_messages state, system # get_messages state]"
  by (auto simp: llm_call_def recording_def Let_def split: prod.splits sum.splits if_splits)

lemma filter_no_system:
  "list_all (\<lambda>m. \<not> is_SystemMessage m) new \<Longrightarrow> filter is_SystemMessage new = []"
  by (induction new) auto

text \<open>
  Claim C8. Every list the model step sends to the service is the system message followed
  by the stored history (once, or twice when the first call failed). The update it returns
  holds the new assistant message alone, which is appended to the unchanged history. After
  any number of steps the history is the initial one followed by messages none of which is
  a system message, so it holds exactly the system messages it started with.
\<close>

theorem system_message_not_stored:
  "(llm_call \<lparr>model_with_tools = recording g1, model = recording g2, TOOLS_BY_NAME = reg\<rparr>
       state0 (w0, log) = (r, (w2, log1)) \<longrightarrow>
      log1 = log @ [system # get_messages state0]
      \<or> log1 = log @ [system # get_messages state0, system # get_messages state0])
   \<and> (llm_call e state w = (Inr upd, w1) \<longrightarrow>
        (\<exists>c tcs. upd = \<lparr>messages = Some [AIMessage c tcs], llm_calls = Some (get_llm_calls state + 1)\<rparr>
           \<and> messages (apply_update state upd) = Some (get_messages state @ [AIMessage c tcs])))
   \<and> (run fuel e nd state w = Running nd1 state1 w1 \<or> run fuel e nd state w = Halted state1 w1 \<longrightarrow>
        (\<exists>new. get_messages state1 = get_messages state @ new
           \<and> list_all (\<lambda>m. \<not> is_SystemMessage m) new)
        \<and> filter is_SystemMessage (get_messages state1) = filter is_SystemMessage (get_messages state))"
proof (intro conjI impI)
  assume "llm_call \<lparr>model_with_tools = recording g1, model = recording g2, TOOLS_BY_NAME = reg\<rparr>
       state0 (w0, log) = (r, (w2, log1))"
  then show "log1 = log @ [system # get_messages state0]
      \<or> log1 = log @ [system # get_messages state0, system # get_messages state0]"
    by (rule recording_llm_call)
next
  assume a: "llm_call e state w = (Inr upd, w1)"
  from llm_call_update [OF a] obtain c tcs where
    "upd = \<lparr>messages = Some [AIMessage c tcs], llm_calls = Some (get_llm_calls state + 1)\<rparr>"
    by blast
  then show "\<exists>c tcs. upd = \<lparr>messages = Some [AIMessage c tcs], llm_calls = Some (get_llm_calls state + 1)\<rparr>
           \<and> messages (apply_update state upd) = Some (get_messages state @ [AIMessage c tcs])"
    by (simp add: apply_update_def)
next
  assume a: "run fuel e nd state w = Running nd1 state1 w1 \<or> run fuel e nd state w = Halted state1 w1"
  from run_extends [OF a] obtain new where
    new: "get_messages state1 = get_messages state @ new" "list_all (\<lambda>m. \<not> is_SystemMessage m) new"
    by blast
  then show "\<exists>new. get_messages state1 = get_messages state @ new
           \<and> list_all (\<lambda>m. \<not> is_SystemMessage m) new"
    by blast
  from new show "filter is_SystemMessage (get_messages state1) = filter is_SystemMessage (get_messages state)"
    by (simp add: filter_no_system)
qed

theorem system_message_not_stored_witness:
  "llm_call \<lparr>model_with_tools = recording scripted, model = recording scripted,
             TOOLS_BY_NAME = Map.empty\<rparr>
       \<lparr>messages = Some [HumanMessage ''hello''], llm_calls = None\<rparr>
       ([Inr (''done'', [])], [])
     = (Inr \<lparr>messages = Some [AIMessage ''done'' []], llm_calls = Some 1\<rparr>,
        ([], [[system, HumanMessage ''hello'']]))
   \<and> run 4 stub_env Llm_call \<lparr>messages = Some [HumanMessage ''hello''], llm_calls = None\<rparr>
       [Inr ([], [request ''echo'' [(''text'', JStr ''hi'')] ''X'']), Inr (''done'', [])]
     = Halted \<lparr>messages = Some [HumanMessage ''hello'',
                   AIMessage [] [request ''echo'' [(''text'', JStr ''hi'')] ''X''],
                   ToolMessage ''hi'' (Some ''X''), AIMessage ''done'' []],
                llm_calls = Some 2\<rparr> []
   \<and> filter is_SystemMessage [HumanMessage ''hello'',
                   AIMessage [] [request ''echo'' [(''text'', JStr ''hi'')] ''X''],
                   ToolMessage ''hi'' (Some ''X''), AIMessage ''done'' []]
       = filter is_SystemMessage [HumanMessage ''hello'']"
proof -
  let ?s0 = "\<lparr>messages = Some [HumanMessage ''hello''], llm_calls = None\<rparr>"
  let ?s1 = "\<lparr>messages = Some [HumanMessage ''hello'',
                   AIMessage [] [request ''echo'' [(''text'', JStr ''hi'')] ''X''],
                   ToolMessage ''hi'' (Some ''X''), AIMessage ''done'' []],
                llm_calls = Some 2\<rparr>"
  let ?script = "[Inr ([], [request ''echo'' [(''text'', JStr ''hi'')] ''X'']), Inr (''done'', [])]"
  have rec: "llm_call \<lparr>model_with_tools = recording scripted, model = recording scripted,
             TOOLS_BY_NAME = Map.empty\<rparr> ?s0 ([Inr (''done'', [])], [])
     = (Inr \<lparr>messages = Some [AIMessage ''done'' []], llm_calls = Some 1\<rparr>,
        ([], [[system, HumanMessage ''hello'']]))"
    by (simp add: llm_call_def recording_def scripted_def get_messages_def get_llm_calls_def)
  have r: "run 4 stub_env Llm_call ?s0 ?script = Halted ?s1 []"
    by (simp add: numeral_eq_Suc step_def llm_call_def tool_node_def run_tool_call_def stub_env_def
        scripted_def stub_registry_def registry_get_def request_def get_args_def echo_tool_def
        echo_handler_def apply_update_def get_messages_def get_llm_calls_def should_continue_def)
  from system_message_not_stored [where ?g1.0 = scripted and ?g2.0 = scripted and reg = Map.empty
      and state0 = ?s0 and ?w0.0 = "[Inr (''done'', [])]" and log = "[]"
      and r = "Inr \<lparr>messages = Some [AIMessage ''done'' []], llm_calls = Some 1\<rparr>"
      and ?w2.0 = "[]" and ?log1.0 = "[[system, HumanMessage ''hello'']]"
      and e = stub_env and state = ?s0 and w = ?script and fuel = 4 and nd = Llm_call
      and ?nd1.0 = Llm_call and ?state1.0 = ?s1 and ?w1.0 = "[]"] rec r
  show ?thesis by (simp add: get_messages_def)
qed

section \<open>Completing and deleting a task\<close>









section \<open>When the Drafter ends\<close>



















end
